theory Spec2Isabelle
  imports Complex_Main "HOL-Library.Word" "HOL-Library.Sublist"
begin

section \<open>Strings and numbers of the host language\<close>

text \<open>
  A JavaScript string is a sequence of 16-bit code units. Councillor names, search
  terms, route parameters and the text fields of a search result are such strings.
  Identifiers that the program writes as literals (category keys, tags, class names,
  static text) are kept as \<open>string\<close>; \<open>ascii\<close> gives the code units of such a literal.
  A \<open>number\<close> of the type contracts is a JSON number; the program only compares it with
  zero and prints it, so it is read as a \<open>real\<close>.
\<close>

type_synonym js_string = "16 word list"

definition ascii :: "string \<Rightarrow> js_string" where
  "ascii s = map (\<lambda>c. of_nat (of_char c)) s"

datatype js_error = URIError | TypeError

text \<open>
  \<open>String.prototype.includes\<close>: the search string occurs at some position of the
  receiver. The scan tries each start position from the left.
\<close>

fun js_includes :: "'a list \<Rightarrow> 'a list \<Rightarrow> bool" where
  "js_includes [] searchString = (searchString = [])"
| "js_includes (c # cs) searchString =
     (take (length searchString) (c # cs) = searchString \<or> js_includes cs searchString)"

text \<open>
  \<open>String.prototype.replace\<close> with a one-character string pattern: only the first
  occurrence is replaced.
\<close>

fun String_replace :: "char \<Rightarrow> char \<Rightarrow> string \<Rightarrow> string" where
  "String_replace pat rep [] = []"
| "String_replace pat rep (c # cs) =
     (if c = pat then rep # cs else c # String_replace pat rep cs)"

section \<open>encodeURIComponent and decodeURIComponent\<close>

text \<open>
  The two built-ins follow the abstract operations \<open>Encode\<close> and \<open>Decode\<close> of
  ECMA-262 (with no extra unescaped characters and an empty preserved set). Both
  raise \<open>URIError\<close>: \<open>Encode\<close> on an unpaired surrogate, \<open>Decode\<close> on a malformed
  escape or on octets that are not the UTF-8 encoding of a code point.
\<close>

definition append_result :: "js_string \<Rightarrow> js_error + js_string \<Rightarrow> js_error + js_string" where
  "append_result S r = (case r of Inl e \<Rightarrow> Inl e | Inr R \<Rightarrow> Inr (S @ R))"

definition uriUnescaped :: "16 word \<Rightarrow> bool" where
  "uriUnescaped c = (let u = unat c in
     (65 \<le> u \<and> u \<le> 90) \<or> (97 \<le> u \<and> u \<le> 122) \<or> (48 \<le> u \<and> u \<le> 57) \<or>
     u \<in> {45, 95, 46, 33, 126, 42, 39, 40, 41})"

definition isLeadingSurrogate :: "16 word \<Rightarrow> bool" where
  "isLeadingSurrogate c = (0xD800 \<le> unat c \<and> unat c \<le> 0xDBFF)"

definition isTrailingSurrogate :: "16 word \<Rightarrow> bool" where
  "isTrailingSurrogate c = (0xDC00 \<le> unat c \<and> unat c \<le> 0xDFFF)"

definition UTF16SurrogatePairToCodePoint :: "16 word \<Rightarrow> 16 word \<Rightarrow> nat" where
  "UTF16SurrogatePairToCodePoint lead trail =
     (unat lead - 0xD800) * 0x400 + (unat trail - 0xDC00) + 0x10000"

text \<open>
  \<open>String.prototype.isWellFormed\<close>: the string has no unpaired surrogate.
\<close>

fun isWellFormed :: "js_string \<Rightarrow> bool" where
  "isWellFormed [] = True"
| "isWellFormed (C # cs) =
     (if isLeadingSurrogate C then
        (case cs of [] \<Rightarrow> False | D # ds \<Rightarrow> isTrailingSurrogate D \<and> isWellFormed ds)
      else \<not> isTrailingSurrogate C \<and> isWellFormed cs)"

definition utf8_encode :: "nat \<Rightarrow> nat list" where
  "utf8_encode cp =
     (if cp < 0x80 then [cp]
      else if cp < 0x800 then [0xC0 + cp div 0x40, 0x80 + cp mod 0x40]
      else if cp < 0x10000 then
        [0xE0 + cp div 0x1000, 0x80 + cp div 0x40 mod 0x40, 0x80 + cp mod 0x40]
      else [0xF0 + cp div 0x40000, 0x80 + cp div 0x1000 mod 0x40,
            0x80 + cp div 0x40 mod 0x40, 0x80 + cp mod 0x40])"

definition hexDigit :: "nat \<Rightarrow> 16 word" where
  "hexDigit d = of_nat (if d < 10 then 48 + d else 55 + d)"

definition percentEscape :: "nat \<Rightarrow> js_string" where
  "percentEscape octet = [0x25, hexDigit (octet div 16), hexDigit (octet mod 16)]"

definition escapeCodePoint :: "nat \<Rightarrow> js_string" where
  "escapeCodePoint cp = concat (map percentEscape (utf8_encode cp))"

fun Encode :: "js_string \<Rightarrow> js_error + js_string" where
  "Encode [] = Inr []"
| "Encode (C # cs) =
     (if uriUnescaped C then append_result [C] (Encode cs)
      else if isLeadingSurrogate C then
        (case cs of
           [] \<Rightarrow> Inl URIError
         | D # ds \<Rightarrow>
             if isTrailingSurrogate D
             then append_result (escapeCodePoint (UTF16SurrogatePairToCodePoint C D)) (Encode ds)
             else Inl URIError)
      else if isTrailingSurrogate C then Inl URIError
      else append_result (escapeCodePoint (unat C)) (Encode cs))"

definition hexValue :: "16 word \<Rightarrow> nat option" where
  "hexValue c = (let u = unat c in
     if 48 \<le> u \<and> u \<le> 57 then Some (u - 48)
     else if 65 \<le> u \<and> u \<le> 70 then Some (u - 55)
     else if 97 \<le> u \<and> u \<le> 102 then Some (u - 87)
     else None)"

fun ParseHexOctet :: "js_string \<Rightarrow> nat option" where
  "ParseHexOctet (h # l # _) =
     (case hexValue h of
        None \<Rightarrow> None
      | Some a \<Rightarrow> (case hexValue l of None \<Rightarrow> None | Some b \<Rightarrow> Some (16 * a + b)))"
| "ParseHexOctet _ = None"

definition leadingOnes :: "nat \<Rightarrow> nat" where
  "leadingOnes B =
     (if B < 0x80 then 0 else if B < 0xC0 then 1 else if B < 0xE0 then 2
      else if B < 0xF0 then 3 else if B < 0xF8 then 4 else if B < 0xFC then 5
      else if B < 0xFE then 6 else if B < 0xFF then 7 else 8)"

fun readContinuation :: "nat \<Rightarrow> js_string \<Rightarrow> nat list option" where
  "readContinuation 0 cs = Some []"
| "readContinuation (Suc j) [] = None"
| "readContinuation (Suc j) (p # cs) =
     (if p \<noteq> 0x25 then None
      else case ParseHexOctet cs of
             None \<Rightarrow> None
           | Some B \<Rightarrow> (case readContinuation j (drop 2 cs) of
                          None \<Rightarrow> None
                        | Some Octets \<Rightarrow> Some (B # Octets)))"

definition isContinuation :: "nat \<Rightarrow> bool" where
  "isContinuation b = (0x80 \<le> b \<and> b \<le> 0xBF)"

fun utf8_decode :: "nat list \<Rightarrow> nat option" where
  "utf8_decode [b0, b1] =
     (if 0xC2 \<le> b0 \<and> b0 \<le> 0xDF \<and> isContinuation b1
      then Some ((b0 - 0xC0) * 0x40 + (b1 - 0x80)) else None)"
| "utf8_decode [b0, b1, b2] =
     (if 0xE0 \<le> b0 \<and> b0 \<le> 0xEF \<and> isContinuation b1 \<and> isContinuation b2
      then (let V = (b0 - 0xE0) * 0x1000 + (b1 - 0x80) * 0x40 + (b2 - 0x80)
            in if V < 0x800 \<or> (0xD800 \<le> V \<and> V \<le> 0xDFFF) then None else Some V)
      else None)"
| "utf8_decode [b0, b1, b2, b3] =
     (if 0xF0 \<le> b0 \<and> b0 \<le> 0xF7 \<and> isContinuation b1 \<and> isContinuation b2 \<and> isContinuation b3
      then (let V = (b0 - 0xF0) * 0x40000 + (b1 - 0x80) * 0x1000 + (b2 - 0x80) * 0x40 + (b3 - 0x80)
            in if V < 0x10000 \<or> 0x10FFFF < V then None else Some V)
      else None)"
| "utf8_decode _ = None"

definition UTF16EncodeCodePoint :: "nat \<Rightarrow> js_string" where
  "UTF16EncodeCodePoint cp =
     (if cp \<le> 0xFFFF then [of_nat cp]
      else [of_nat ((cp - 0x10000) div 0x400 + 0xD800),
            of_nat ((cp - 0x10000) mod 0x400 + 0xDC00)])"

fun Decode :: "js_string \<Rightarrow> js_error + js_string" where
  "Decode [] = Inr []"
| "Decode (C # cs) =
     (if C \<noteq> 0x25 then append_result [C] (Decode cs)
      else case ParseHexOctet cs of
             None \<Rightarrow> Inl URIError
           | Some B \<Rightarrow>
               if leadingOnes B = 0 then append_result [of_nat B] (Decode (drop 2 cs))
               else if leadingOnes B = 1 \<or> 4 < leadingOnes B then Inl URIError
               else (case readContinuation (leadingOnes B - 1) (drop 2 cs) of
                       None \<Rightarrow> Inl URIError
                     | Some Octets \<Rightarrow>
                         (case utf8_decode (B # Octets) of
                            None \<Rightarrow> Inl URIError
                          | Some V \<Rightarrow>
                              append_result (UTF16EncodeCodePoint V)
                                (Decode (drop (3 * (leadingOnes B - 1)) (drop 2 cs))))))"

definition encodeURIComponent :: "js_string \<Rightarrow> js_error + js_string" where
  "encodeURIComponent uriComponent = Encode uriComponent"

definition decodeURIComponent :: "js_string \<Rightarrow> js_error + js_string" where
  "decodeURIComponent encodedURIComponent = Decode encodedURIComponent"

section \<open>The data model (types/councillor.ts)\<close>

record SearchResult =
  title :: js_string
  link :: js_string
  snippet :: js_string
  search_time :: js_string
  relevance_score :: real

text \<open>
  A \<open>CategoryResults\<close> object is given by its properties, key and value, in the order the
  data file lists them: the views never name a category field, they only enumerate the
  object with \<open>Object.entries\<close>. The interface declares the four keys of
  \<open>CategoryResults_keys\<close>; an object \<open>conforms\<close> when it has exactly these, each once.
  \<open>map_of c ''controversy''\<close> reads \<open>c.controversy\<close>.
\<close>

type_synonym CategoryResults = "(string \<times> SearchResult list) list"

definition CategoryResults_keys :: "string list" where
  "CategoryResults_keys = [''basic_info'', ''social_media'', ''business_interests'', ''controversy'']"

definition conforms :: "CategoryResults \<Rightarrow> bool" where
  "conforms c = (distinct (map fst c) \<and> set (map fst c) = set CategoryResults_keys)"

record Summary =
  total_results :: real
  potential_interests :: "js_string list"
  controversy_count :: real
  has_social_media :: bool

record CouncillorData =
  categories :: CategoryResults
  summary :: Summary

text \<open>
  The store \<open>councillorData\<close> is the object read from the bundled data file, which is
  not among the sources: it is a parameter of every view. It is given by its own
  properties in the order \<open>Object.entries\<close> lists them; an object has each key once.
\<close>

type_synonym CouncillorResults = "(js_string \<times> CouncillorData) list"

text \<open>
  \<open>Object.entries\<close> of a \<open>CategoryResults\<close>: the object's own properties, in their order.
\<close>

definition Object_entries :: "CategoryResults \<Rightarrow> (string \<times> SearchResult list) list" where
  "Object_entries c = c"

text \<open>
  Reading \<open>councillorData[key]\<close>. The store is an ordinary object, so a key that is not
  an own property is looked up on \<open>Object.prototype\<close>: its properties are functions
  (and, for \<open>__proto__\<close>, the prototype object), all truthy and none with a
  \<open>categories\<close> property.
\<close>

definition Object_prototype_names :: "string list" where
  "Object_prototype_names =
     [''constructor'', ''hasOwnProperty'', ''isPrototypeOf'', ''propertyIsEnumerable'',
      ''toLocaleString'', ''toString'', ''valueOf'', ''__proto__'',
      ''__defineGetter__'', ''__defineSetter__'', ''__lookupGetter__'', ''__lookupSetter__'']"

datatype property_value = OwnValue CouncillorData | PrototypeValue | UndefinedValue

definition get_property :: "CouncillorResults \<Rightarrow> js_string \<Rightarrow> property_value" where
  "get_property obj key =
     (case map_of obj key of
        Some v \<Rightarrow> OwnValue v
      | None \<Rightarrow> if key \<in> set (map ascii Object_prototype_names)
                then PrototypeValue else UndefinedValue)"

section \<open>Rendered output\<close>

text \<open>
  What a component returns: an element with its tag, the tokens of its \<open>className\<close>,
  its other data props and its children; static text; a string or a number of the data;
  \<open>x.toFixed(d)\<close>; and \<open>null\<close> and \<open>false\<close>, which render nothing. React keys and event
  handlers are not part of the tree; the card's click handler is a function of its own.
\<close>

datatype prop_value = Str string | JStr js_string | Flag

datatype jsx =
    Elem string "string list" "(string \<times> prop_value) list" "jsx list"
  | Lit string
  | Text js_string
  | Number real
  | Fixed real nat
  | JNull
  | JFalse

fun subtrees :: "jsx \<Rightarrow> jsx list" where
  "subtrees (Elem t cl ps kids) = Elem t cl ps kids # concat (map subtrees kids)"
| "subtrees x = [x]"

fun tag_of :: "jsx \<Rightarrow> string" where
  "tag_of (Elem t cl ps kids) = t"
| "tag_of _ = []"

fun classes_of :: "jsx \<Rightarrow> string list" where
  "classes_of (Elem t cl ps kids) = cl"
| "classes_of _ = []"

fun props_of :: "jsx \<Rightarrow> (string \<times> prop_value) list" where
  "props_of (Elem t cl ps kids) = ps"
| "props_of _ = []"

section \<open>CouncillorCard.tsx\<close>

definition CouncillorCard_getCategoryIcon :: "string \<Rightarrow> jsx" where
  "CouncillorCard_getCategoryIcon category =
     (if category = ''basic_info'' then Elem ''Info'' [''h-4'', ''w-4''] [] []
      else if category = ''business_interests'' then Elem ''Briefcase'' [''h-4'', ''w-4''] [] []
      else if category = ''social_media'' then Elem ''Share2'' [''h-4'', ''w-4''] [] []
      else if category = ''controversy'' then Elem ''AlertTriangle'' [''h-4'', ''w-4''] [] []
      else JNull)"

definition CouncillorCard_badge :: "string \<times> SearchResult list \<Rightarrow> jsx" where
  "CouncillorCard_badge = (\<lambda>(category, results).
     if length results > 0 then
       Elem ''Badge'' [''flex'', ''items-center'', ''gap-1''] [(''variant'', Str ''secondary'')]
         [CouncillorCard_getCategoryIcon category,
          Lit (String_replace CHR ''_'' CHR '' '' category), Lit '' ('',
          Number (real (length results)), Lit '')'']
     else JFalse)"

definition CouncillorCard :: "js_string \<Rightarrow> CouncillorData \<Rightarrow> jsx" where
  "CouncillorCard name data =
     Elem ''Card'' [''hover:shadow-lg'', ''transition-shadow'', ''cursor-pointer''] []
       [Elem ''CardHeader'' [] []
          [Elem ''CardTitle'' [''text-xl'', ''font-semibold''] [] [Text name]],
        Elem ''CardContent'' [] []
          [Elem ''div'' [''space-y-4''] []
             [Elem ''div'' [''flex'', ''gap-2'', ''flex-wrap''] []
                (map CouncillorCard_badge (Object_entries (categories data))),
              Elem ''div'' [''text-sm'', ''text-gray-600''] []
                [Elem ''p'' [] [] [Lit ''Total Results: '', Number (total_results (summary data))],
                 (if controversy_count (summary data) > 0 then
                    Elem ''p'' [''text-red-500'', ''flex'', ''items-center'', ''gap-1''] []
                      [Elem ''AlertTriangle'' [''h-4'', ''w-4''] [] [],
                       Lit ''Controversy Items: '',
                       Number (controversy_count (summary data))]
                  else JFalse)]]]]"

text \<open>The card's \<open>onClick\<close>: the route handed to \<open>navigate\<close>, or the error raised.\<close>

definition CouncillorCard_onClick :: "js_string \<Rightarrow> js_error + js_string" where
  "CouncillorCard_onClick name = append_result (ascii ''/councillor/'') (encodeURIComponent name)"

section \<open>CouncillorDetail.tsx\<close>

definition ResultCard :: "SearchResult \<Rightarrow> jsx" where
  "ResultCard result =
     Elem ''Card'' [''mb-4''] []
       [Elem ''CardContent'' [''pt-4''] []
          [Elem ''a'' [''text-primary'', ''hover:underline'', ''flex'', ''items-center'', ''gap-2'']
             [(''href'', JStr (link result)), (''target'', Str ''_blank''),
              (''rel'', Str ''noopener noreferrer'')]
             [Text (title result), Elem ''ExternalLink'' [''h-4'', ''w-4''] [] []],
           Elem ''p'' [''text-sm'', ''text-gray-600'', ''mt-2''] [] [Text (snippet result)],
           Elem ''div'' [''flex'', ''justify-between'', ''items-center'', ''mt-2'', ''text-sm'',
                        ''text-gray-500''] []
             [Elem ''span'' [] [] [Lit ''Relevance: '', Fixed (relevance_score result) 1],
              (if search_time result \<noteq> [] then Elem ''span'' [] [] [Text (search_time result)]
               else Text (search_time result))]]]"

definition CouncillorDetail_getCategoryIcon :: "string \<Rightarrow> jsx" where
  "CouncillorDetail_getCategoryIcon category =
     (if category = ''business_interests'' then Elem ''Briefcase'' [''h-4'', ''w-4''] [] []
      else if category = ''controversy'' then Elem ''AlertTriangle'' [''h-4'', ''w-4''] [] []
      else JNull)"

definition filteredCategories :: "CouncillorData \<Rightarrow> (string \<times> SearchResult list) list" where
  "filteredCategories councillor =
     filter (\<lambda>(category, results). category \<notin> set [''basic_info'', ''social_media''])
       (Object_entries (categories councillor))"

definition AccordionItem_of :: "string \<times> SearchResult list \<Rightarrow> jsx" where
  "AccordionItem_of = (\<lambda>(category, results).
     Elem ''AccordionItem'' [] [(''value'', Str category)]
       [Elem ''AccordionTrigger'' [''flex'', ''items-center'', ''gap-2''] []
          [CouncillorDetail_getCategoryIcon category,
           Lit (String_replace CHR ''_'' CHR '' '' category), Lit '' ('',
           Number (real (length results)), Lit '')''],
        Elem ''AccordionContent'' [] []
          (map ResultCard results @
           [if length results = 0
            then Elem ''p'' [''text-gray-500'', ''italic''] [] [Lit ''No results found'']
            else JFalse])])"

text \<open>The tree returned once the record is found.\<close>

definition CouncillorDetail_page :: "js_string \<Rightarrow> CouncillorData \<Rightarrow> jsx" where
  "CouncillorDetail_page decodedName councillor =
     Elem ''div'' [''container'', ''mx-auto'', ''py-8'', ''px-4''] []
       [Elem ''Button'' [''mb-6''] [(''variant'', Str ''outline'')]
          [Elem ''ArrowLeft'' [''h-4'', ''w-4'', ''mr-2''] [] [], Lit ''Back to List''],
        Elem ''Card'' [''mb-8''] []
          [Elem ''CardHeader'' [] [] [Elem ''CardTitle'' [''text-2xl''] [] [Text decodedName]],
           Elem ''CardContent'' [] []
             [Elem ''div'' [''grid'', ''grid-cols-1'', ''md:grid-cols-2'', ''lg:grid-cols-4'', ''gap-4''] []
                [Elem ''div'' [''bg-gray-50'', ''p-4'', ''rounded-lg''] []
                   [Elem ''h3'' [''font-semibold''] [] [Lit ''Total Results''],
                    Elem ''p'' [''text-2xl''] [] [Number (total_results (summary councillor))]],
                 Elem ''div'' [''bg-gray-50'', ''p-4'', ''rounded-lg''] []
                   [Elem ''h3'' [''font-semibold''] [] [Lit ''Controversy Count''],
                    Elem ''p'' [''text-2xl'', ''text-red-500''] []
                      [Number (controversy_count (summary councillor))]],
                 Elem ''div'' [''bg-gray-50'', ''p-4'', ''rounded-lg''] []
                   [Elem ''h3'' [''font-semibold''] [] [Lit ''Potential Interests''],
                    Elem ''p'' [''text-2xl''] []
                      [Number (real (length (potential_interests (summary councillor))))]]]]],
        Elem ''Accordion'' [''space-y-4''] [(''type'', Str ''single''), (''collapsible'', Flag)]
          (map AccordionItem_of (filteredCategories councillor))]"

definition not_found :: jsx where
  "not_found = Elem ''div'' [] [] [Lit ''Councillor not found'']"

text \<open>
  The component, as a function of the store and of the route parameter \<open>name\<close>
  (\<open>None\<close> when the route gives none). \<open>!name\<close> holds for a missing and for an empty
  name. A value inherited from \<open>Object.prototype\<close> passes the \<open>!councillor\<close> guard; its
  \<open>categories\<close> is \<open>undefined\<close>, on which \<open>Object.entries\<close> raises \<open>TypeError\<close>.
\<close>

definition CouncillorDetail :: "CouncillorResults \<Rightarrow> js_string option \<Rightarrow> js_error + jsx" where
  "CouncillorDetail councillorData name =
     (case name of
        None \<Rightarrow> Inr JNull
      | Some n \<Rightarrow>
          if n = [] then Inr JNull
          else (case decodeURIComponent n of
                  Inl e \<Rightarrow> Inl e
                | Inr decodedName \<Rightarrow>
                    (case get_property councillorData decodedName of
                       UndefinedValue \<Rightarrow> Inr not_found
                     | PrototypeValue \<Rightarrow> Inl TypeError
                     | OwnValue councillor \<Rightarrow> Inr (CouncillorDetail_page decodedName councillor))))"

text \<open>
  Between the card's \<open>navigate\<close> and the detail view's \<open>useParams\<close> stands the router, a
  library that is not among the sources. It matches the location against
  \<open>/councillor/:name\<close> and hands \<open>useParams\<close> the path segment already percent-decoded,
  and the segment as it stands when it cannot be decoded.
\<close>

definition useParams_name :: "js_string \<Rightarrow> js_string" where
  "useParams_name segment =
     (case decodeURIComponent segment of Inl e \<Rightarrow> segment | Inr decoded \<Rightarrow> decoded)"

section \<open>Index.tsx\<close>

text \<open>
  \<open>String.prototype.toLowerCase\<close> is the engine's Unicode lower-casing. Its tables are
  not part of the program: the list view takes it as a parameter, and what is proved
  holds for whichever mapping the engine implements.
\<close>

definition filteredCouncillors ::
  "(js_string \<Rightarrow> js_string) \<Rightarrow> CouncillorResults \<Rightarrow> js_string \<Rightarrow> CouncillorResults" where
  "filteredCouncillors toLowerCase councillorData searchTerm =
     filter (\<lambda>(name, data). js_includes (toLowerCase name) (toLowerCase searchTerm))
       councillorData"

definition Index :: "(js_string \<Rightarrow> js_string) \<Rightarrow> CouncillorResults \<Rightarrow> js_string \<Rightarrow> jsx" where
  "Index toLowerCase councillorData searchTerm =
     Elem ''div'' [''container'', ''mx-auto'', ''py-8'', ''px-4''] []
       [Elem ''h1'' [''text-3xl'', ''font-bold'', ''mb-8'', ''text-primary''] []
          [Lit ''Councillor Web Results''],
        Elem ''Input'' [''mb-8'']
          [(''type'', Str ''search''), (''placeholder'', Str ''Search councillors...''),
           (''value'', JStr searchTerm)] [],
        Elem ''div'' [''grid'', ''grid-cols-1'', ''md:grid-cols-2'', ''lg:grid-cols-3'', ''gap-6''] []
          (map (\<lambda>(name, data). CouncillorCard name data)
             (filteredCouncillors toLowerCase councillorData searchTerm)),
        (if length (filteredCouncillors toLowerCase councillorData searchTerm) = 0 then
           Elem ''p'' [''text-center'', ''text-gray-500'', ''mt-8''] []
             [Lit ''No councillors found matching your search.'']
         else JFalse)]"

section \<open>Observations and example data\<close>

text \<open>
  What the properties below read off a rendered tree: the cards of the list view, the
  elements carrying a class or a tag, and the \<open>value\<close> props of the accordion items.
\<close>

definition cards :: "jsx \<Rightarrow> jsx list" where
  "cards t = filter (\<lambda>x. tag_of x = ''Card'') (subtrees t)"

definition elements_with_class :: "string \<Rightarrow> jsx \<Rightarrow> jsx list" where
  "elements_with_class c t = filter (\<lambda>x. c \<in> set (classes_of x)) (subtrees t)"

definition elements_with_tag :: "string \<Rightarrow> jsx \<Rightarrow> jsx list" where
  "elements_with_tag tg t = filter (\<lambda>x. tag_of x = tg) (subtrees t)"

definition accordion_sections :: "jsx \<Rightarrow> prop_value list" where
  "accordion_sections t =
     concat (map (\<lambda>x. map snd (filter (\<lambda>p. fst p = ''value'') (props_of x)))
       (elements_with_tag ''AccordionItem'' t))"

text \<open>
  The specification's reading of the filter: the lower-cased name contains the
  lower-cased search string as a substring.
\<close>

definition name_contains :: "(js_string \<Rightarrow> js_string) \<Rightarrow> js_string \<Rightarrow> js_string \<Rightarrow> bool" where
  "name_contains toLowerCase name s =
     (\<exists>before after. toLowerCase name = before @ toLowerCase s @ after)"

text \<open>Lower-casing of the letters A to Z, with which \<open>toLowerCase\<close> agrees on ASCII strings.\<close>

definition ascii_toLowerCase :: "js_string \<Rightarrow> js_string" where
  "ascii_toLowerCase s = map (\<lambda>c. if 65 \<le> unat c \<and> unat c \<le> 90 then c + 32 else c) s"

text \<open>
  The store of the specification's example, its categories in the order the example
  writes them, and two variants of its record.
\<close>

definition example_result :: SearchResult where
  "example_result = \<lparr>title = ascii ''X'', link = ascii ''http://x'', snippet = ascii ''s'',
     search_time = ascii ''1s'', relevance_score = 0.8\<rparr>"

definition jane_doe :: CouncillorData where
  "jane_doe = \<lparr>categories = [(''business_interests'', []), (''controversy'', [example_result]),
       (''basic_info'', []), (''social_media'', [])],
     summary = \<lparr>total_results = 1, potential_interests = [], controversy_count = 1,
       has_social_media = False\<rparr>\<rparr>"

definition example_store :: CouncillorResults where
  "example_store = [(ascii ''Jane Doe'', jane_doe)]"

definition stale_summary :: CouncillorData where
  "stale_summary = jane_doe\<lparr>summary := (summary jane_doe)\<lparr>controversy_count := 0\<rparr>\<rparr>"

definition empty_controversy :: CouncillorData where
  "empty_controversy =
     jane_doe\<lparr>categories := [(''business_interests'', []), (''controversy'', []),
       (''basic_info'', []), (''social_media'', [])]\<rparr>"

text \<open>A record without controversy items, and a store of two councillors.\<close>

definition john_roe :: CouncillorData where
  "john_roe = \<lparr>categories = [(''basic_info'', []), (''social_media'', []),
       (''business_interests'', []), (''controversy'', [])],
     summary = \<lparr>total_results = 0, potential_interests = [], controversy_count = 0,
       has_social_media = False\<rparr>\<rparr>"

definition two_store :: CouncillorResults where
  "two_store = [(ascii ''Jane Doe'', jane_doe), (ascii ''John Roe'', john_roe)]"

text \<open>A store with two names that contain a percent sign.\<close>

definition percent_store :: CouncillorResults where
  "percent_store =
     [(ascii ''100% Bob'', jane_doe), (ascii ''A%41'', jane_doe), (ascii ''AA'', john_roe)]"

section \<open>The list view\<close>

lemma js_includes_iff: "js_includes xs s = (\<exists>ps ss. xs = ps @ s @ ss)"
proof (induction xs)
  case Nil
  then show ?case by auto
next
  case (Cons c cs)
  have "take (length s) (c # cs) = s \<longleftrightarrow> (\<exists>ss. c # cs = s @ ss)"
    by (metis append_eq_conv_conj append_take_drop_id)
  moreover have "(\<exists>ps ss. c # cs = ps @ s @ ss) \<longleftrightarrow>
      (\<exists>ss. c # cs = s @ ss) \<or> (\<exists>ps ss. cs = ps @ s @ ss)"
    (is "?L \<longleftrightarrow> ?R")
  proof
    assume ?L
    then obtain ps ss where e: "c # cs = ps @ s @ ss" by blast
    show ?R
    proof (cases ps)
      case Nil
      with e show ?thesis by auto
    next
      case (Cons p ps')
      with e have "cs = ps' @ s @ ss" by simp
      then show ?thesis by blast
    qed
  next
    assume ?R
    then show ?L
    proof
      assume "\<exists>ss. c # cs = s @ ss"
      then obtain ss where "c # cs = [] @ s @ ss" by auto
      then show ?L by blast
    next
      assume "\<exists>ps ss. cs = ps @ s @ ss"
      then obtain ps ss where "c # cs = (c # ps) @ s @ ss" by auto
      then show ?L by blast
    qed
  qed
  ultimately show ?case using Cons.IH by simp
qed

lemma filter_subtrees_empty:
  "(\<And>x. filter P (subtrees (g x)) = []) \<Longrightarrow>
   filter P (concat (map subtrees (map g xs))) = []"
  by (induction xs) auto

lemma filter_subtrees_self:
  "(\<And>x. filter P (subtrees (g x)) = [g x]) \<Longrightarrow>
   filter P (concat (map subtrees (map g xs))) = map g xs"
  by (induction xs) auto

lemma examples_conform:
  "conforms (categories jane_doe)" "conforms (categories stale_summary)"
  "conforms (categories empty_controversy)" "conforms (categories john_roe)"
  by (auto simp: conforms_def CategoryResults_keys_def jane_doe_def stale_summary_def
      empty_controversy_def john_roe_def)

lemma subtrees_badge:
  "subtrees (CouncillorCard_badge e) =
     (if length (snd e) > 0 then
        [CouncillorCard_badge e] @ subtrees (CouncillorCard_getCategoryIcon (fst e)) @
        [Lit (String_replace CHR ''_'' CHR '' '' (fst e)), Lit '' ('',
         Number (real (length (snd e))), Lit '')'']
      else [JFalse])"
  by (cases e) (simp add: CouncillorCard_badge_def)

lemma subtrees_card_icon:
  "subtrees (CouncillorCard_getCategoryIcon category) = [CouncillorCard_getCategoryIcon category]"
  by (simp add: CouncillorCard_getCategoryIcon_def)

lemma badge_tag: "tag_of (CouncillorCard_badge e) \<noteq> ''Card''"
  by (cases e) (simp add: CouncillorCard_badge_def)

lemma badge_classes:
  "''text-red-500'' \<notin> set (classes_of (CouncillorCard_badge e))"
  "''text-gray-600'' \<notin> set (classes_of (CouncillorCard_badge e))"
  by (cases e; simp add: CouncillorCard_badge_def)+

lemma icon_tag: "tag_of (CouncillorCard_getCategoryIcon category) \<noteq> ''Card''"
  by (simp add: CouncillorCard_getCategoryIcon_def)

lemma icon_classes:
  "''text-red-500'' \<notin> set (classes_of (CouncillorCard_getCategoryIcon category))"
  "''text-gray-600'' \<notin> set (classes_of (CouncillorCard_getCategoryIcon category))"
  by (simp_all add: CouncillorCard_getCategoryIcon_def)

lemma no_card_in_badges:
  "filter (\<lambda>x. tag_of x = ''Card'') (concat (map subtrees (map CouncillorCard_badge es))) = []"
  by (rule filter_subtrees_empty) (simp add: subtrees_badge subtrees_card_icon badge_tag icon_tag)

lemma no_red_in_badges:
  "filter (\<lambda>x. ''text-red-500'' \<in> set (classes_of x))
     (concat (map subtrees (map CouncillorCard_badge es))) = []"
  by (rule filter_subtrees_empty)
    (simp add: subtrees_badge subtrees_card_icon badge_classes icon_classes)

lemma no_figures_in_badges:
  "filter (\<lambda>x. ''text-gray-600'' \<in> set (classes_of x))
     (concat (map subtrees (map CouncillorCard_badge es))) = []"
  by (rule filter_subtrees_empty)
    (simp add: subtrees_badge subtrees_card_icon badge_classes icon_classes)

lemma cards_CouncillorCard: "cards (CouncillorCard name data) = [CouncillorCard name data]"
  using no_card_in_badges [of "categories data"]
  by (simp add: cards_def CouncillorCard_def Object_entries_def)

lemma cards_Index:
  "cards (Index toLowerCase councillorData s) =
   map (\<lambda>(name, data). CouncillorCard name data)
     (filteredCouncillors toLowerCase councillorData s)"
proof -
  have "filter (\<lambda>x. tag_of x = ''Card'')
          (concat (map subtrees (map (\<lambda>(name, data). CouncillorCard name data)
             (filteredCouncillors toLowerCase councillorData s)))) =
        map (\<lambda>(name, data). CouncillorCard name data)
          (filteredCouncillors toLowerCase councillorData s)"
    by (rule filter_subtrees_self)
      (use cards_CouncillorCard in \<open>simp add: cards_def case_prod_unfold\<close>)
  then show ?thesis by (simp add: cards_def Index_def)
qed

text \<open>
  C1. For every search string \<open>s\<close>, the cards of the list view are the cards of exactly
  those store entries whose lower-cased name contains the lower-cased \<open>s\<close> as a
  substring, one card each, in the order of the store's entries.
\<close>

theorem Index_shows_matching_councillors:
  "cards (Index toLowerCase councillorData s) =
   map (\<lambda>(name, data). CouncillorCard name data)
     (filter (\<lambda>(name, data). name_contains toLowerCase name s) councillorData)"
proof -
  have "filteredCouncillors toLowerCase councillorData s =
        filter (\<lambda>(name, data). name_contains toLowerCase name s) councillorData"
    unfolding filteredCouncillors_def name_contains_def
    by (rule filter_cong) (auto simp: js_includes_iff)
  then show ?thesis by (simp add: cards_Index)
qed

text \<open>
  C8. With the empty search string the list view shows a card for every entry of the
  store, in the store's order. The lower-casing of the empty string is the empty string.
\<close>

theorem Index_empty_search:
  assumes "toLowerCase [] = []"
  shows "cards (Index toLowerCase councillorData []) =
         map (\<lambda>(name, data). CouncillorCard name data) councillorData"
proof -
  have "\<And>xs :: js_string. js_includes xs []"
    by (metis js_includes_iff append_Nil)
  then have "filteredCouncillors toLowerCase councillorData [] = councillorData"
    using assms by (simp add: filteredCouncillors_def case_prod_unfold)
  then show ?thesis by (simp add: cards_Index)
qed

theorem Index_empty_search_witness:
  "ascii_toLowerCase [] = [] \<and>
   cards (Index ascii_toLowerCase example_store []) = [CouncillorCard (ascii ''Jane Doe'') jane_doe]"
proof -
  have e: "ascii_toLowerCase [] = []" by (simp add: ascii_toLowerCase_def)
  show ?thesis
    using e Index_empty_search [of ascii_toLowerCase example_store]
    by (simp add: example_store_def)
qed

text \<open>The filter at work on a store of two: by case, by a shared letter, without a match.\<close>

lemma Index_examples:
  "cards (Index ascii_toLowerCase two_store (ascii ''DOE'')) =
     [CouncillorCard (ascii ''Jane Doe'') jane_doe]"
  "cards (Index ascii_toLowerCase two_store (ascii ''o'')) =
     [CouncillorCard (ascii ''Jane Doe'') jane_doe, CouncillorCard (ascii ''John Roe'') john_roe]"
  "cards (Index ascii_toLowerCase two_store (ascii ''x'')) = []"
  by (simp_all add: cards_Index filteredCouncillors_def two_store_def ascii_toLowerCase_def ascii_def)

section \<open>The summary figures\<close>

lemma red_card:
  "elements_with_class ''text-red-500'' (CouncillorCard name data) =
     (if controversy_count (summary data) > 0 then
        [Elem ''p'' [''text-red-500'', ''flex'', ''items-center'', ''gap-1''] []
           [Elem ''AlertTriangle'' [''h-4'', ''w-4''] [] [], Lit ''Controversy Items: '',
            Number (controversy_count (summary data))]]
      else [])"
  using no_red_in_badges [of "categories data"]
  by (simp add: elements_with_class_def CouncillorCard_def Object_entries_def)

lemma no_red_ResultCard: "elements_with_class ''text-red-500'' (ResultCard r) = []"
  by (simp add: elements_with_class_def ResultCard_def)

lemma no_red_AccordionItem: "elements_with_class ''text-red-500'' (AccordionItem_of e) = []"
proof -
  obtain category results where e: "e = (category, results)" by (cases e)
  have "filter (\<lambda>x. ''text-red-500'' \<in> set (classes_of x))
          (concat (map subtrees (map ResultCard results))) = []"
    by (rule filter_subtrees_empty)
      (use no_red_ResultCard in \<open>simp add: elements_with_class_def\<close>)
  then show ?thesis
    by (simp add: e elements_with_class_def AccordionItem_of_def CouncillorDetail_getCategoryIcon_def)
qed

lemma red_page:
  "elements_with_class ''text-red-500'' (CouncillorDetail_page decodedName councillor) =
     [Elem ''p'' [''text-2xl'', ''text-red-500''] [] [Number (controversy_count (summary councillor))]]"
proof -
  have "filter (\<lambda>x. ''text-red-500'' \<in> set (classes_of x))
          (concat (map subtrees (map AccordionItem_of (filteredCategories councillor)))) = []"
    by (rule filter_subtrees_empty)
      (use no_red_AccordionItem in \<open>simp add: elements_with_class_def\<close>)
  then show ?thesis
    by (simp add: elements_with_class_def CouncillorDetail_page_def)
qed

text \<open>
  C2, as stated, fails: the red-highlighted line of the card and the Controversy Count of
  the header print \<open>summary.controversy_count\<close>, whatever the length of
  \<open>categories.controversy\<close>. With one controversy item and a summary count of zero the
  card has no red line and the header prints 0; with no controversy item and a summary
  count of one the card has the red line.
\<close>

theorem controversy_count_counterexample:
  "map_of (categories stale_summary) ''controversy'' = Some [example_result] \<and>
   elements_with_class ''text-red-500'' (CouncillorCard (ascii ''Jane Doe'') stale_summary) = [] \<and>
   elements_with_class ''text-red-500'' (CouncillorDetail_page (ascii ''Jane Doe'') stale_summary) =
     [Elem ''p'' [''text-2xl'', ''text-red-500''] [] [Number 0]] \<and>
   map_of (categories empty_controversy) ''controversy'' = Some [] \<and>
   elements_with_class ''text-red-500'' (CouncillorCard (ascii ''Jane Doe'') empty_controversy) =
     [Elem ''p'' [''text-red-500'', ''flex'', ''items-center'', ''gap-1''] []
        [Elem ''AlertTriangle'' [''h-4'', ''w-4''] [] [], Lit ''Controversy Items: '', Number 1]]"
  by (simp add: red_card red_page stale_summary_def empty_controversy_def jane_doe_def)

text \<open>
  C2, amended. For every councillor record, whatever its categories hold: the card's
  red-highlighted elements are the one line "Controversy Items:" with
  \<open>summary.controversy_count\<close> when that count is greater than 0 and none otherwise, and
  the detail view's only red-highlighted element is the header figure
  \<open>summary.controversy_count\<close>. Hence, for a record whose \<open>summary.controversy_count\<close>
  equals the length \<open>N\<close> of its \<open>categories.controversy\<close> list: if \<open>N > 0\<close>, the card's line
  and the header's figure both display \<open>N\<close>; if \<open>N = 0\<close>, the card has no red-highlighted
  line.
\<close>

theorem controversy_count_shown:
  "elements_with_class ''text-red-500'' (CouncillorCard name data) =
     (if controversy_count (summary data) > 0 then
        [Elem ''p'' [''text-red-500'', ''flex'', ''items-center'', ''gap-1''] []
           [Elem ''AlertTriangle'' [''h-4'', ''w-4''] [] [], Lit ''Controversy Items: '',
            Number (controversy_count (summary data))]]
      else []) \<and>
   elements_with_class ''text-red-500'' (CouncillorDetail_page name data) =
     [Elem ''p'' [''text-2xl'', ''text-red-500''] [] [Number (controversy_count (summary data))]] \<and>
   (map_of (categories data) ''controversy'' = Some results \<and>
    controversy_count (summary data) = real (length results) \<and> N = length results \<longrightarrow>
      (0 < N \<longrightarrow>
         elements_with_class ''text-red-500'' (CouncillorCard name data) =
           [Elem ''p'' [''text-red-500'', ''flex'', ''items-center'', ''gap-1''] []
              [Elem ''AlertTriangle'' [''h-4'', ''w-4''] [] [], Lit ''Controversy Items: '',
               Number (real N)]] \<and>
         elements_with_class ''text-red-500'' (CouncillorDetail_page name data) =
           [Elem ''p'' [''text-2xl'', ''text-red-500''] [] [Number (real N)]]) \<and>
      (N = 0 \<longrightarrow> elements_with_class ''text-red-500'' (CouncillorCard name data) = []))"
  by (simp add: red_card red_page)

theorem controversy_count_shown_witness:
  "map_of (categories jane_doe) ''controversy'' = Some [example_result] \<and>
   controversy_count (summary jane_doe) = real (length [example_result]) \<and>
   elements_with_class ''text-red-500'' (CouncillorCard (ascii ''Jane Doe'') jane_doe) =
     [Elem ''p'' [''text-red-500'', ''flex'', ''items-center'', ''gap-1''] []
        [Elem ''AlertTriangle'' [''h-4'', ''w-4''] [] [], Lit ''Controversy Items: '', Number 1]] \<and>
   elements_with_class ''text-red-500'' (CouncillorDetail_page (ascii ''Jane Doe'') jane_doe) =
     [Elem ''p'' [''text-2xl'', ''text-red-500''] [] [Number 1]] \<and>
   map_of (categories john_roe) ''controversy'' = Some [] \<and>
   controversy_count (summary john_roe) = real (length ([] :: SearchResult list)) \<and>
   elements_with_class ''text-red-500'' (CouncillorCard (ascii ''John Roe'') john_roe) = []"
proof -
  have j: "map_of (categories jane_doe) ''controversy'' = Some [example_result]"
    "controversy_count (summary jane_doe) = real (length [example_result])"
    by (simp_all add: jane_doe_def)
  have r: "map_of (categories john_roe) ''controversy'' = Some []"
    "controversy_count (summary john_roe) = real (length ([] :: SearchResult list))"
    by (simp_all add: john_roe_def)
  show ?thesis
    using j r
      controversy_count_shown [of "ascii ''Jane Doe''" jane_doe "[example_result]" 1]
      controversy_count_shown [of "ascii ''John Roe''" john_roe "[]" 0]
    by simp
qed

lemma figures_card:
  "elements_with_class ''text-gray-600'' (CouncillorCard name data) =
     [Elem ''div'' [''text-sm'', ''text-gray-600''] []
        [Elem ''p'' [] [] [Lit ''Total Results: '', Number (total_results (summary data))],
         (if controversy_count (summary data) > 0 then
            Elem ''p'' [''text-red-500'', ''flex'', ''items-center'', ''gap-1''] []
              [Elem ''AlertTriangle'' [''h-4'', ''w-4''] [] [],
               Lit ''Controversy Items: '',
               Number (controversy_count (summary data))]
          else JFalse)]]"
  using no_figures_in_badges [of "categories data"]
  by (simp add: elements_with_class_def CouncillorCard_def Object_entries_def)

lemma no_figures_ResultCard: "elements_with_class ''text-2xl'' (ResultCard r) = []"
  by (simp add: elements_with_class_def ResultCard_def)

lemma no_figures_AccordionItem: "elements_with_class ''text-2xl'' (AccordionItem_of e) = []"
proof -
  obtain category results where e: "e = (category, results)" by (cases e)
  have "filter (\<lambda>x. ''text-2xl'' \<in> set (classes_of x))
          (concat (map subtrees (map ResultCard results))) = []"
    by (rule filter_subtrees_empty)
      (use no_figures_ResultCard in \<open>simp add: elements_with_class_def\<close>)
  then show ?thesis
    by (simp add: e elements_with_class_def AccordionItem_of_def CouncillorDetail_getCategoryIcon_def)
qed

lemma figures_page:
  "elements_with_class ''text-2xl'' (CouncillorDetail_page decodedName councillor) =
     [Elem ''CardTitle'' [''text-2xl''] [] [Text decodedName],
      Elem ''p'' [''text-2xl''] [] [Number (total_results (summary councillor))],
      Elem ''p'' [''text-2xl'', ''text-red-500''] [] [Number (controversy_count (summary councillor))],
      Elem ''p'' [''text-2xl''] []
        [Number (real (length (potential_interests (summary councillor))))]]"
proof -
  have "filter (\<lambda>x. ''text-2xl'' \<in> set (classes_of x))
          (concat (map subtrees (map AccordionItem_of (filteredCategories councillor)))) = []"
    by (rule filter_subtrees_empty)
      (use no_figures_AccordionItem in \<open>simp add: elements_with_class_def\<close>)
  then show ?thesis
    by (simp add: elements_with_class_def CouncillorDetail_page_def)
qed

text \<open>
  C7. Two records with equal summaries show the same figures, whatever their categories
  hold: the card's block of Total Results and Controversy Items (its only element of
  class \<open>text-gray-600\<close>) and the detail header's title and its Total Results,
  Controversy Count and Potential Interests figures (the elements of class \<open>text-2xl\<close>).
\<close>

theorem summary_figures_depend_on_summary_only:
  assumes "summary data1 = summary data2"
  shows "elements_with_class ''text-gray-600'' (CouncillorCard name data1) =
           elements_with_class ''text-gray-600'' (CouncillorCard name data2) \<and>
         elements_with_class ''text-2xl'' (CouncillorDetail_page name data1) =
           elements_with_class ''text-2xl'' (CouncillorDetail_page name data2)"
  using assms by (simp add: figures_card figures_page)

theorem summary_figures_witness:
  "summary jane_doe = summary empty_controversy \<and>
   categories jane_doe \<noteq> categories empty_controversy \<and>
   elements_with_class ''text-gray-600'' (CouncillorCard (ascii ''Jane Doe'') jane_doe) =
     elements_with_class ''text-gray-600'' (CouncillorCard (ascii ''Jane Doe'') empty_controversy) \<and>
   elements_with_class ''text-2xl'' (CouncillorDetail_page (ascii ''Jane Doe'') jane_doe) =
     elements_with_class ''text-2xl'' (CouncillorDetail_page (ascii ''Jane Doe'') empty_controversy)"
  using summary_figures_depend_on_summary_only [of jane_doe empty_controversy "ascii ''Jane Doe''"]
  by (simp add: jane_doe_def empty_controversy_def)

section \<open>The detail view\<close>

text \<open>
  C9. The result card has a span holding \<open>search_time\<close> exactly when \<open>search_time\<close> is
  truthy (a non-empty string); otherwise its only span is the relevance. The field is
  a required string of \<open>SearchResult\<close>.
\<close>

theorem search_time_rendered_iff_truthy:
  "elements_with_tag ''span'' (ResultCard result) =
     (if search_time result \<noteq> []
      then [Elem ''span'' [] [] [Lit ''Relevance: '', Fixed (relevance_score result) 1],
            Elem ''span'' [] [] [Text (search_time result)]]
      else [Elem ''span'' [] [] [Lit ''Relevance: '', Fixed (relevance_score result) 1]])"
  by (simp add: elements_with_tag_def ResultCard_def)

lemma no_item_ResultCard: "elements_with_tag ''AccordionItem'' (ResultCard r) = []"
  by (simp add: elements_with_tag_def ResultCard_def)

lemma items_AccordionItem:
  "elements_with_tag ''AccordionItem'' (AccordionItem_of e) = [AccordionItem_of e]"
proof -
  obtain category results where e: "e = (category, results)" by (cases e)
  have "filter (\<lambda>x. tag_of x = ''AccordionItem'')
          (concat (map subtrees (map ResultCard results))) = []"
    by (rule filter_subtrees_empty)
      (use no_item_ResultCard in \<open>simp add: elements_with_tag_def\<close>)
  then show ?thesis
    by (simp add: e elements_with_tag_def AccordionItem_of_def CouncillorDetail_getCategoryIcon_def)
qed

lemma items_page:
  "elements_with_tag ''AccordionItem'' (CouncillorDetail_page decodedName councillor) =
     map AccordionItem_of (filteredCategories councillor)"
proof -
  have "filter (\<lambda>x. tag_of x = ''AccordionItem'')
          (concat (map subtrees (map AccordionItem_of (filteredCategories councillor)))) =
        map AccordionItem_of (filteredCategories councillor)"
    by (rule filter_subtrees_self)
      (use items_AccordionItem in \<open>simp add: elements_with_tag_def\<close>)
  then show ?thesis
    by (simp add: elements_with_tag_def CouncillorDetail_page_def)
qed

lemma sections_page:
  "accordion_sections (CouncillorDetail_page decodedName councillor) =
     map (\<lambda>(category, results). Str category) (filteredCategories councillor)"
proof -
  have "concat (map (\<lambda>x. map snd (filter (\<lambda>p. fst p = ''value'') (props_of x)))
          (map AccordionItem_of es)) = map (\<lambda>(category, results). Str category) es" for es
    by (induction es) (auto simp: AccordionItem_of_def)
  then show ?thesis by (simp add: accordion_sections_def items_page)
qed

lemma CouncillorDetail_views:
  assumes "CouncillorDetail councillorData name = Inr view"
  shows "view = JNull \<or> view = not_found \<or>
         (\<exists>decodedName councillor. view = CouncillorDetail_page decodedName councillor)"
  using assms
  by (auto simp: CouncillorDetail_def
      split: option.splits if_splits sum.splits property_value.splits)

lemma CouncillorDetail_Jane_Doe:
  "CouncillorDetail example_store (Some (ascii ''Jane%20Doe'')) =
     Inr (CouncillorDetail_page (ascii ''Jane Doe'') jane_doe)"
  by (simp add: CouncillorDetail_def decodeURIComponent_def ascii_def append_result_def
      hexValue_def leadingOnes_def get_property_def example_store_def)

text \<open>
  C5. Whatever the store and the route parameter, no accordion item of a view returned
  by the detail view is the \<open>basic_info\<close> or the \<open>social_media\<close> section.
\<close>

theorem no_identity_sections:
  assumes "CouncillorDetail councillorData name = Inr view"
  shows "Str ''basic_info'' \<notin> set (accordion_sections view) \<and>
         Str ''social_media'' \<notin> set (accordion_sections view)"
proof -
  consider "view = JNull" | "view = not_found"
    | decodedName councillor where "view = CouncillorDetail_page decodedName councillor"
    using CouncillorDetail_views [OF assms] by blast
  then show ?thesis
  proof cases
    case 1
    then show ?thesis by (simp add: accordion_sections_def elements_with_tag_def)
  next
    case 2
    then show ?thesis by (simp add: accordion_sections_def elements_with_tag_def not_found_def)
  next
    case 3
    then show ?thesis by (auto simp: sections_page filteredCategories_def)
  qed
qed

theorem no_identity_sections_witness:
  "CouncillorDetail example_store (Some (ascii ''Jane%20Doe'')) =
     Inr (CouncillorDetail_page (ascii ''Jane Doe'') jane_doe) \<and>
   accordion_sections (CouncillorDetail_page (ascii ''Jane Doe'') jane_doe) =
     [Str ''business_interests'', Str ''controversy''] \<and>
   Str ''basic_info'' \<notin> set (accordion_sections (CouncillorDetail_page (ascii ''Jane Doe'') jane_doe)) \<and>
   Str ''social_media'' \<notin> set (accordion_sections (CouncillorDetail_page (ascii ''Jane Doe'') jane_doe))"
proof -
  have "accordion_sections (CouncillorDetail_page (ascii ''Jane Doe'') jane_doe) =
     [Str ''business_interests'', Str ''controversy'']"
    by (simp add: sections_page filteredCategories_def Object_entries_def jane_doe_def)
  with CouncillorDetail_Jane_Doe no_identity_sections [OF CouncillorDetail_Jane_Doe]
  show ?thesis by simp
qed


lemma append_result_Inr: "append_result S r = Inr R \<longleftrightarrow> (\<exists>R'. r = Inr R' \<and> R = S @ R')"
  by (auto simp: append_result_def split: sum.splits)


text \<open>
  C10. Without a route parameter the detail view returns \<open>null\<close>. It returns the
  not-found message only for a parameter that is present, not empty, and whose decoded
  form is not a key of the store.
\<close>

theorem not_found_only_for_missing_key:
  "CouncillorDetail councillorData None = Inr JNull \<and>
   (CouncillorDetail councillorData name = Inr not_found \<longrightarrow>
      (\<exists>n decodedName. name = Some n \<and> n \<noteq> [] \<and> decodeURIComponent n = Inr decodedName \<and>
         decodedName \<notin> fst ` set councillorData))"
proof -
  have neq: "\<And>d c. CouncillorDetail_page d c \<noteq> not_found" "JNull \<noteq> not_found"
    by (simp_all add: CouncillorDetail_page_def not_found_def)
  have own: "\<And>d. get_property councillorData d = UndefinedValue \<Longrightarrow> d \<notin> fst ` set councillorData"
    by (auto simp: get_property_def map_of_eq_None_iff split: option.splits if_splits)
  show ?thesis
    using neq own
    by (auto simp: CouncillorDetail_def
      split: option.splits if_splits sum.splits property_value.splits)
qed

theorem not_found_witness:
  "CouncillorDetail example_store None = Inr JNull \<and>
   CouncillorDetail example_store (Some (ascii ''John%20Roe'')) = Inr not_found \<and>
   (\<exists>n decodedName. Some (ascii ''John%20Roe'') = Some n \<and> n \<noteq> [] \<and>
      decodeURIComponent n = Inr decodedName \<and> decodedName \<notin> fst ` set example_store)"
proof -
  have "CouncillorDetail example_store (Some (ascii ''John%20Roe'')) = Inr not_found"
    by (simp add: CouncillorDetail_def decodeURIComponent_def ascii_def append_result_def
        hexValue_def leadingOnes_def get_property_def example_store_def Object_prototype_names_def)
  with not_found_only_for_missing_key [of example_store "Some (ascii ''John%20Roe'')"]
  show ?thesis by simp
qed

text \<open>
  C4. The route name \<open>constructor\<close> is not a key of the example store, yet the detail
  view does not return the not-found message: the lookup yields the function inherited
  from \<open>Object.prototype\<close>, the guard \<open>!councillor\<close> lets it pass, and
  \<open>Object.entries(councillor.categories)\<close> raises \<open>TypeError\<close>.
\<close>

theorem inherited_name_raises_TypeError:
  "ascii ''constructor'' \<notin> fst ` set example_store \<and>
   decodeURIComponent (ascii ''constructor'') = Inr (ascii ''constructor'') \<and>
   CouncillorDetail example_store (Some (ascii ''constructor'')) = Inl TypeError"
  by (simp add: CouncillorDetail_def decodeURIComponent_def ascii_def append_result_def
        get_property_def example_store_def Object_prototype_names_def)




section \<open>From the card to the detail view\<close>

lemma div_64_64: "(cp::nat) div 0x40 div 0x40 = cp div 0x1000"
  by (simp add: div_mult2_eq [symmetric])

lemma div_64_64_64: "(cp::nat) div 0x40 div 0x40 div 0x40 = cp div 0x40000"
  by (simp add: div_mult2_eq [symmetric])

lemma split3: "(cp::nat) div 0x1000 * 0x1000 + cp div 0x40 mod 0x40 * 0x40 + cp mod 0x40 = cp"
proof -
  define q1 where "q1 = cp div 0x40"
  define r0 where "r0 = cp mod 0x40"
  define q2 where "q2 = q1 div 0x40"
  define r1 where "r1 = q1 mod 0x40"
  have a: "cp = q1 * 0x40 + r0" by (simp add: q1_def r0_def)
  have b: "q1 = q2 * 0x40 + r1" by (simp add: q2_def r1_def)
  have c: "cp div 0x1000 = q2"
    unfolding q2_def q1_def by (rule div_64_64 [symmetric])
  have "q2 * 0x1000 + r1 * 0x40 + r0 = cp" using a b by linarith
  then show ?thesis unfolding c r1_def r0_def q1_def .
qed

lemma split4:
  "(cp::nat) div 0x40000 * 0x40000 + cp div 0x1000 mod 0x40 * 0x1000 + cp div 0x40 mod 0x40 * 0x40
     + cp mod 0x40 = cp"
proof -
  define q1 where "q1 = cp div 0x40"
  define r0 where "r0 = cp mod 0x40"
  define q2 where "q2 = q1 div 0x40"
  define r1 where "r1 = q1 mod 0x40"
  define q3 where "q3 = q2 div 0x40"
  define r2 where "r2 = q2 mod 0x40"
  have a: "cp = q1 * 0x40 + r0" by (simp add: q1_def r0_def)
  have b: "q1 = q2 * 0x40 + r1" by (simp add: q2_def r1_def)
  have b': "q2 = q3 * 0x40 + r2" by (simp add: q3_def r2_def)
  have c: "cp div 0x1000 = q2"
    unfolding q2_def q1_def by (rule div_64_64 [symmetric])
  have d: "cp div 0x40000 = q3"
    unfolding q3_def q2_def q1_def by (rule div_64_64_64 [symmetric])
  have "q3 * 0x40000 + r2 * 0x1000 + r1 * 0x40 + r0 = cp" using a b b' by linarith
  then show ?thesis unfolding c d r2_def r1_def r0_def q1_def [symmetric] .
qed

lemma unat16_bound: "unat (c :: 16 word) < 65536"
  using unsigned_less [of c, where ?'a = nat] by simp

lemma unat_of_nat16: "k < 65536 \<Longrightarrow> unat (of_nat k :: 16 word) = k"
  by (simp add: unat_of_nat)

lemma hexValue_hexDigit: "d < 16 \<Longrightarrow> hexValue (hexDigit d) = Some d"
  by (auto simp: hexValue_def hexDigit_def unat_of_nat16 Let_def)

lemma ParseHexOctet_percentEscape:
  "b < 256 \<Longrightarrow> ParseHexOctet (hexDigit (b div 16) # hexDigit (b mod 16) # rest) = Some b"
proof -
  assume b: "b < 256"
  then have "b div 16 < 16" "b mod 16 < 16" by auto
  then show ?thesis by (simp add: hexValue_hexDigit)
qed

lemma readContinuation_percentEscape:
  "b < 256 \<Longrightarrow>
   readContinuation (Suc j) (percentEscape b @ rest) =
     (case readContinuation j rest of None \<Rightarrow> None | Some Octets \<Rightarrow> Some (b # Octets))"
  by (simp add: percentEscape_def ParseHexOctet_percentEscape del: ParseHexOctet.simps)

lemma drop_percentEscape: "drop 3 (percentEscape b @ rest) = rest"
  by (simp add: percentEscape_def)

lemma Decode_single:
  assumes "b < 0x80"
  shows "Decode (percentEscape b @ rest) = append_result [of_nat b] (Decode rest)"
proof -
  have "b < 256" using assms by simp
  then have "ParseHexOctet (hexDigit (b div 16) # hexDigit (b mod 16) # rest) = Some b"
    by (rule ParseHexOctet_percentEscape)
  moreover have "leadingOnes b = 0" using assms by (simp add: leadingOnes_def)
  ultimately show ?thesis
    by (simp add: percentEscape_def del: ParseHexOctet.simps)
qed

lemma Decode_multibyte:
  assumes "b0 < 256" and "leadingOnes b0 = Suc n" and "0 < n" and "n < 4"
    and "readContinuation n tail = Some Octets"
    and "utf8_decode (b0 # Octets) = Some V"
  shows "Decode (percentEscape b0 @ tail) =
         append_result (UTF16EncodeCodePoint V) (Decode (drop (3 * n) tail))"
proof -
  have "ParseHexOctet (hexDigit (b0 div 16) # hexDigit (b0 mod 16) # tail) = Some b0"
    using assms(1) by (rule ParseHexOctet_percentEscape)
  then show ?thesis
    using assms(2-)
    by (simp add: percentEscape_def del: ParseHexOctet.simps utf8_decode.simps readContinuation.simps)
qed

lemma Decode_escape1:
  assumes "cp < 0x80"
  shows "Decode (escapeCodePoint cp @ rest) = append_result (UTF16EncodeCodePoint cp) (Decode rest)"
  using assms Decode_single [of cp rest]
  by (simp add: escapeCodePoint_def utf8_encode_def UTF16EncodeCodePoint_def)

lemma Decode_escape2:
  assumes "0x80 \<le> cp" "cp < 0x800"
  shows "Decode (escapeCodePoint cp @ rest) = append_result (UTF16EncodeCodePoint cp) (Decode rest)"
proof -
  define b0 where "b0 = 0xC0 + cp div 0x40"
  define b1 where "b1 = 0x80 + cp mod 0x40"
  have r: "0xC2 \<le> b0" "b0 \<le> 0xDF" "0x80 \<le> b1" "b1 \<le> 0xBF"
    using assms by (auto simp: b0_def b1_def)
  have v: "(b0 - 0xC0) * 0x40 + (b1 - 0x80) = cp"
    by (simp add: b0_def b1_def)
  have e: "escapeCodePoint cp = percentEscape b0 @ percentEscape b1"
    using assms by (simp add: escapeCodePoint_def utf8_encode_def b0_def b1_def)
  have l: "leadingOnes b0 = Suc 1" using r by (simp add: leadingOnes_def)
  have c: "readContinuation 1 (percentEscape b1 @ rest) = Some [b1]"
    using r by (simp add: readContinuation_percentEscape)
  have u: "utf8_decode [b0, b1] = Some cp"
    using r v by (simp add: isContinuation_def)
  have "Decode (percentEscape b0 @ percentEscape b1 @ rest) =
        append_result (UTF16EncodeCodePoint cp) (Decode (drop (3 * 1) (percentEscape b1 @ rest)))"
    using r by (intro Decode_multibyte [OF _ l _ _ c u]) simp_all
  moreover have "drop (3 * 1) (percentEscape b1 @ rest) = rest"
    by (simp add: percentEscape_def)
  ultimately show ?thesis by (simp only: e append_assoc)
qed

lemma Decode_escape3:
  assumes "0x800 \<le> cp" "cp < 0x10000" "\<not> (0xD800 \<le> cp \<and> cp \<le> 0xDFFF)"
  shows "Decode (escapeCodePoint cp @ rest) = append_result (UTF16EncodeCodePoint cp) (Decode rest)"
proof -
  define b0 where "b0 = 0xE0 + cp div 0x1000"
  define b1 where "b1 = 0x80 + cp div 0x40 mod 0x40"
  define b2 where "b2 = 0x80 + cp mod 0x40"
  have r: "0xE0 \<le> b0" "b0 \<le> 0xEF" "0x80 \<le> b1" "b1 \<le> 0xBF" "0x80 \<le> b2" "b2 \<le> 0xBF"
    using assms by (auto simp: b0_def b1_def b2_def)
  have v: "(b0 - 0xE0) * 0x1000 + (b1 - 0x80) * 0x40 + (b2 - 0x80) = cp"
    unfolding b0_def b1_def b2_def using split3 [of cp] by simp
  have e: "escapeCodePoint cp = percentEscape b0 @ percentEscape b1 @ percentEscape b2"
    using assms by (simp add: escapeCodePoint_def utf8_encode_def b0_def b1_def b2_def)
  have l: "leadingOnes b0 = Suc 2" using r by (simp add: leadingOnes_def)
  have c: "readContinuation 2 (percentEscape b1 @ percentEscape b2 @ rest) = Some [b1, b2]"
    using r by (simp add: readContinuation_percentEscape numeral_2_eq_2)
  have u: "utf8_decode [b0, b1, b2] = Some cp"
    using r v assms by (simp add: isContinuation_def)
  have "Decode (percentEscape b0 @ percentEscape b1 @ percentEscape b2 @ rest) =
        append_result (UTF16EncodeCodePoint cp)
          (Decode (drop (3 * 2) (percentEscape b1 @ percentEscape b2 @ rest)))"
    using r by (intro Decode_multibyte [OF _ l _ _ c u]) simp_all
  moreover have "drop (3 * 2) (percentEscape b1 @ percentEscape b2 @ rest) = rest"
    by (simp add: percentEscape_def)
  ultimately show ?thesis by (simp only: e append_assoc)
qed

lemma Decode_escape4:
  assumes "0x10000 \<le> cp" "cp \<le> 0x10FFFF"
  shows "Decode (escapeCodePoint cp @ rest) = append_result (UTF16EncodeCodePoint cp) (Decode rest)"
proof -
  define b0 where "b0 = 0xF0 + cp div 0x40000"
  define b1 where "b1 = 0x80 + cp div 0x1000 mod 0x40"
  define b2 where "b2 = 0x80 + cp div 0x40 mod 0x40"
  define b3 where "b3 = 0x80 + cp mod 0x40"
  have r: "0xF0 \<le> b0" "b0 \<le> 0xF4" "0x80 \<le> b1" "b1 \<le> 0xBF" "0x80 \<le> b2" "b2 \<le> 0xBF"
    "0x80 \<le> b3" "b3 \<le> 0xBF"
    using assms by (auto simp: b0_def b1_def b2_def b3_def)
  have v: "(b0 - 0xF0) * 0x40000 + (b1 - 0x80) * 0x1000 + (b2 - 0x80) * 0x40 + (b3 - 0x80) = cp"
    unfolding b0_def b1_def b2_def b3_def using split4 [of cp] by simp
  have e: "escapeCodePoint cp =
      percentEscape b0 @ percentEscape b1 @ percentEscape b2 @ percentEscape b3"
    using assms by (simp add: escapeCodePoint_def utf8_encode_def b0_def b1_def b2_def b3_def)
  have l: "leadingOnes b0 = Suc 3" using r by (simp add: leadingOnes_def)
  have c: "readContinuation 3 (percentEscape b1 @ percentEscape b2 @ percentEscape b3 @ rest) =
      Some [b1, b2, b3]"
    using r by (simp add: readContinuation_percentEscape numeral_3_eq_3)
  have u: "utf8_decode [b0, b1, b2, b3] = Some cp"
    using r v assms by (simp add: isContinuation_def)
  have "Decode (percentEscape b0 @ percentEscape b1 @ percentEscape b2 @ percentEscape b3 @ rest) =
        append_result (UTF16EncodeCodePoint cp)
          (Decode (drop (3 * 3) (percentEscape b1 @ percentEscape b2 @ percentEscape b3 @ rest)))"
    using r by (intro Decode_multibyte [OF _ l _ _ c u]) simp_all
  moreover have "drop (3 * 3) (percentEscape b1 @ percentEscape b2 @ percentEscape b3 @ rest) = rest"
    by (simp add: percentEscape_def)
  ultimately show ?thesis by (simp only: e append_assoc)
qed

lemma UTF16Encode_unit: "UTF16EncodeCodePoint (unat (C :: 16 word)) = [C]"
  using unat16_bound [of C] by (simp add: UTF16EncodeCodePoint_def)

lemma UTF16Encode_pair:
  assumes "isLeadingSurrogate C" and "isTrailingSurrogate D"
  shows "UTF16EncodeCodePoint (UTF16SurrogatePairToCodePoint C D) = [C, D]"
proof -
  define c where "c = unat C - 0xD800"
  define d where "d = unat D - 0xDC00"
  have c: "unat C = c + 0xD800" "c < 0x400"
    using assms(1) by (auto simp: c_def isLeadingSurrogate_def)
  have d: "unat D = d + 0xDC00" "d < 0x400"
    using assms(2) by (auto simp: d_def isTrailingSurrogate_def)
  have cp: "UTF16SurrogatePairToCodePoint C D = c * 0x400 + d + 0x10000"
    by (simp add: UTF16SurrogatePairToCodePoint_def c_def d_def)
  have "(c * 0x400 + d) div 0x400 = c" "(c * 0x400 + d) mod 0x400 = d"
    using d(2) by simp_all
  then have "UTF16EncodeCodePoint (c * 0x400 + d + 0x10000) =
      [of_nat (c + 0xD800), of_nat (d + 0xDC00)]"
    by (simp add: UTF16EncodeCodePoint_def)
  also have "\<dots> = [of_nat (unat C), of_nat (unat D)]"
    by (simp only: c(1) d(1))
  finally show ?thesis by (simp add: cp)
qed

lemma pair_range:
  assumes "isLeadingSurrogate C" and "isTrailingSurrogate D"
  shows "0x10000 \<le> UTF16SurrogatePairToCodePoint C D"
    and "UTF16SurrogatePairToCodePoint C D \<le> 0x10FFFF"
  using assms
  by (auto simp: UTF16SurrogatePairToCodePoint_def isLeadingSurrogate_def isTrailingSurrogate_def)

lemma Decode_escapeCodePoint:
  assumes "cp \<le> 0x10FFFF" and "\<not> (0xD800 \<le> cp \<and> cp \<le> 0xDFFF)"
  shows "Decode (escapeCodePoint cp @ rest) = append_result (UTF16EncodeCodePoint cp) (Decode rest)"
proof -
  consider "cp < 0x80" | "0x80 \<le> cp" "cp < 0x800" | "0x800 \<le> cp" "cp < 0x10000"
    | "0x10000 \<le> cp"
    by linarith
  then show ?thesis
  proof cases
    case 1
    then show ?thesis by (rule Decode_escape1)
  next
    case 2
    then show ?thesis by (rule Decode_escape2)
  next
    case 3
    then show ?thesis using assms(2) by (rule Decode_escape3)
  next
    case 4
    then show ?thesis using assms(1) by (rule Decode_escape4)
  qed
qed

lemma escapeCodePoint_not_Nil: "escapeCodePoint cp \<noteq> []"
  by (simp add: escapeCodePoint_def utf8_encode_def percentEscape_def)

lemma uriUnescaped_not_special:
  assumes "uriUnescaped C"
  shows "C \<noteq> 0x25" and "\<not> isLeadingSurrogate C" and "\<not> isTrailingSurrogate C"
proof -
  show "C \<noteq> 0x25"
  proof
    assume "C = 0x25"
    with assms show False by (simp add: uriUnescaped_def)
  qed
  show "\<not> isLeadingSurrogate C" "\<not> isTrailingSurrogate C"
    using assms by (auto simp: uriUnescaped_def isLeadingSurrogate_def isTrailingSurrogate_def Let_def)
qed

lemma Encode_Decode:
  "isWellFormed s \<Longrightarrow> \<exists>enc. Encode s = Inr enc \<and> Decode enc = Inr s \<and> (enc = [] \<longleftrightarrow> s = [])"
proof (induction s rule: Encode.induct)
  case 1
  then show ?case by simp
next
  case (2 C cs)
  show ?case
  proof (cases "uriUnescaped C")
    case True
    note u = uriUnescaped_not_special [OF True]
    from "2.prems" u have "isWellFormed cs" by simp
    from "2.IH"(1) [OF True this] obtain enc where
      enc: "Encode cs = Inr enc" "Decode enc = Inr cs" by blast
    have "Encode (C # cs) = Inr (C # enc)"
      using True enc(1) by (simp add: append_result_def)
    moreover have "Decode (C # enc) = Inr (C # cs)"
      using u(1) enc(2) by (simp add: append_result_def)
    ultimately show ?thesis by simp
  next
    case False
    show ?thesis
    proof (cases "isLeadingSurrogate C")
      case lead: True
      with "2.prems" obtain D ds where cs: "cs = D # ds" and D: "isTrailingSurrogate D"
        and wf: "isWellFormed ds"
        by (auto split: list.splits)
      from "2.IH"(2) [OF False lead cs D wf] obtain enc where
        enc: "Encode ds = Inr enc" "Decode enc = Inr ds" by blast
      let ?cp = "UTF16SurrogatePairToCodePoint C D"
      have e: "Encode (C # cs) = Inr (escapeCodePoint ?cp @ enc)"
        using False lead cs D enc(1) by (simp add: append_result_def)
      have "Decode (escapeCodePoint ?cp @ enc) =
          append_result (UTF16EncodeCodePoint ?cp) (Decode enc)"
        using pair_range [OF lead D] by (intro Decode_escapeCodePoint) auto
      then have "Decode (escapeCodePoint ?cp @ enc) = Inr (C # cs)"
        using enc(2) cs by (simp add: UTF16Encode_pair [OF lead D] append_result_def)
      with e escapeCodePoint_not_Nil [of ?cp] show ?thesis by simp
    next
      case nolead: False
      with "2.prems" have notrail: "\<not> isTrailingSurrogate C" and wf: "isWellFormed cs"
        by simp_all
      from "2.IH"(3) [OF False nolead notrail wf] obtain enc where
        enc: "Encode cs = Inr enc" "Decode enc = Inr cs" by blast
      have e: "Encode (C # cs) = Inr (escapeCodePoint (unat C) @ enc)"
        using False nolead notrail enc(1) by (simp add: append_result_def)
      have "Decode (escapeCodePoint (unat C) @ enc) =
          append_result (UTF16EncodeCodePoint (unat C)) (Decode enc)"
        using nolead notrail unat16_bound [of C]
        by (intro Decode_escapeCodePoint)
          (auto simp: isLeadingSurrogate_def isTrailingSurrogate_def)
      then have "Decode (escapeCodePoint (unat C) @ enc) = Inr (C # cs)"
        using enc(2) by (simp add: UTF16Encode_unit append_result_def)
      with e escapeCodePoint_not_Nil [of "unat C"] show ?thesis by simp
    qed
  qed
qed

lemma Encode_raises: "\<not> isWellFormed s \<Longrightarrow> Encode s = Inl URIError"
proof (induction s rule: Encode.induct)
  case 1
  then show ?case by simp
next
  case (2 C cs)
  show ?case
  proof (cases "uriUnescaped C")
    case True
    note u = uriUnescaped_not_special [OF True]
    from "2.prems" u have "\<not> isWellFormed cs" by simp
    from "2.IH"(1) [OF True this] True show ?thesis by (simp add: append_result_def)
  next
    case False
    show ?thesis
    proof (cases "isLeadingSurrogate C")
      case lead: True
      show ?thesis
      proof (cases cs)
        case Nil
        with False lead show ?thesis by simp
      next
        case (Cons D ds)
        show ?thesis
        proof (cases "isTrailingSurrogate D")
          case True
          with "2.prems" lead Cons have "\<not> isWellFormed ds" by simp
          from "2.IH"(2) [OF False lead Cons True this] False lead Cons True
          show ?thesis by (simp add: append_result_def)
        next
          case False
          with \<open>\<not> uriUnescaped C\<close> lead Cons show ?thesis by simp
        qed
      qed
    next
      case nolead: False
      show ?thesis
      proof (cases "isTrailingSurrogate C")
        case True
        with False nolead show ?thesis by simp
      next
        case notrail: False
        with "2.prems" nolead have "\<not> isWellFormed cs" by simp
        from "2.IH"(3) [OF False nolead notrail this] False nolead notrail
        show ?thesis by (simp add: append_result_def)
      qed
    qed
  qed
qed

text \<open>
  The two built-ins on names outside ASCII, and on escapes that are malformed, overlong,
  truncated or that encode a surrogate.
\<close>

lemma readContinuation_numeral:
  "readContinuation (numeral k) cs = readContinuation (Suc (pred_numeral k)) cs"
  by (simp add: numeral_eq_Suc)

lemma URI_examples:
  "encodeURIComponent [0x5A, 0x6F, 0xEB] = Inr (ascii ''Zo%C3%AB'')"
  "decodeURIComponent (ascii ''Zo%C3%AB'') = Inr [0x5A, 0x6F, 0xEB]"
  "encodeURIComponent [0x20AC, 0xD83D, 0xDE00] = Inr (ascii ''%E2%82%AC%F0%9F%98%80'')"
  "decodeURIComponent (ascii ''%e2%82%ac'') = Inr [0x20AC]"
  "decodeURIComponent (ascii ''%C0%80'') = Inl URIError"
  "decodeURIComponent (ascii ''%ED%A0%80'') = Inl URIError"
  "decodeURIComponent (ascii ''%E2%82'') = Inl URIError"
  "decodeURIComponent (ascii ''100%'') = Inl URIError"
  by (simp_all add: encodeURIComponent_def decodeURIComponent_def ascii_def append_result_def
      uriUnescaped_def isLeadingSurrogate_def isTrailingSurrogate_def escapeCodePoint_def
      utf8_encode_def percentEscape_def hexDigit_def hexValue_def leadingOnes_def
      UTF16SurrogatePairToCodePoint_def UTF16EncodeCodePoint_def isContinuation_def
      readContinuation_numeral)

lemma URI_example_pair:
  "decodeURIComponent (ascii ''%E2%82%AC%F0%9F%98%80'') = Inr [0x20AC, 0xD83D, 0xDE00]"
proof -
  have "isWellFormed [0x20AC, 0xD83D, 0xDE00]"
    by (simp add: isLeadingSurrogate_def isTrailingSurrogate_def)
  from Encode_Decode [OF this] URI_examples(3) show ?thesis
    by (simp add: encodeURIComponent_def decodeURIComponent_def)
qed

text \<open>
  Decoding once undoes the encoding of every name without an unpaired surrogate, and so
  does the router: \<open>useParams\<close> already yields the name the card encoded.
\<close>

lemma decode_after_encode:
  assumes "isWellFormed name"
  shows "\<exists>encoded. encodeURIComponent name = Inr encoded \<and>
           decodeURIComponent encoded = Inr name \<and> useParams_name encoded = name"
  using Encode_Decode [OF assms]
  by (auto simp: encodeURIComponent_def decodeURIComponent_def useParams_name_def)

text \<open>
  C6. The detail view decodes the name a second time. For the store key \<open>100% Bob\<close> the
  card navigates to \<open>/councillor/100%25%20Bob\<close>, the router hands over \<open>100% Bob\<close>, and
  \<open>decodeURIComponent\<close> raises \<open>URIError\<close> on it. For the store key \<open>A%41\<close> the card
  navigates to \<open>/councillor/A%2541\<close>, the router hands over \<open>A%41\<close>, and the detail view
  decodes it to \<open>AA\<close> and shows the page of another councillor.
\<close>

theorem card_click_decodes_twice:
  "map_of percent_store (ascii ''100% Bob'') = Some jane_doe \<and>
   CouncillorCard_onClick (ascii ''100% Bob'') = Inr (ascii ''/councillor/100%25%20Bob'') \<and>
   useParams_name (ascii ''100%25%20Bob'') = ascii ''100% Bob'' \<and>
   CouncillorDetail percent_store (Some (ascii ''100% Bob'')) = Inl URIError \<and>
   map_of percent_store (ascii ''A%41'') = Some jane_doe \<and>
   CouncillorCard_onClick (ascii ''A%41'') = Inr (ascii ''/councillor/A%2541'') \<and>
   useParams_name (ascii ''A%2541'') = ascii ''A%41'' \<and>
   CouncillorDetail percent_store (Some (ascii ''A%41'')) =
     Inr (CouncillorDetail_page (ascii ''AA'') john_roe)"
  by (simp add: percent_store_def CouncillorCard_onClick_def useParams_name_def CouncillorDetail_def
      encodeURIComponent_def decodeURIComponent_def ascii_def append_result_def uriUnescaped_def
      isLeadingSurrogate_def isTrailingSurrogate_def escapeCodePoint_def utf8_encode_def
      percentEscape_def hexDigit_def hexValue_def leadingOnes_def get_property_def)

end
